theory Spec2Isabelle
  imports Main
begin

section \<open>Go values shared by every revision of the package\<close>

text \<open>
  The package wraps a websocket connection as a message channel and bridges an HTTP
  handler to a queue of such channels.  The sources hold several revisions of the same
  files: the first channel (gorilla/websocket, no completion signal), the gorilla
  channel with a \<open>done\<close> field and \<open>filterErr\<close>, and the nhooyr.io/websocket channel
  with \<open>Done\<close>; and for the listener the revisions with a \<open>sync.WaitGroup\<close> and the one
  with a bounded queue (\<open>MaxPending\<close>).  Each revision is embedded under its own name.

  The websocket connection, the HTTP response writer and the upgrader are external
  collaborators.  Their results are parameters of the model (a \<open>transport\<close> record of
  functions of the history so far), and every call made on them is appended to a log of
  events, so that order and multiplicity of the calls can be stated.
\<close>

type_synonym bytes = string

text \<open>The identity of a \<open>*websocket.Conn\<close> and of a \<open>chan struct{}\<close>.\<close>

type_synonym conn = nat
type_synonym sig = nat

text \<open>
  Go \<open>error\<close> values, by dynamic type.  \<open>CloseErrorPtr\<close> is a value of type
  \<open>*websocket.CloseError\<close> (\<open>None\<close> is the nil pointer of that type, otherwise the code
  and text of the struct pointed to); \<open>CloseErrorVal\<close> is a value of the struct type
  \<open>websocket.CloseError\<close> itself, which is what nhooyr.io/websocket hands out.
  \<open>WrapError p e\<close> is \<open>fmt.Errorf(p + "%w", e)\<close>, \<open>ErrorString s\<close> is \<open>errors.New(s)\<close> or
  a \<open>fmt.Errorf\<close> without \<open>%w\<close>.  A nil \<open>error\<close> is \<open>None\<close> of \<open>go_error option\<close>.
\<close>

datatype go_error =
    CloseErrorPtr "(int \<times> string) option"
  | CloseErrorVal int string
  | ErrClosed
  | ErrBadHandshake
  | ErrCloseSent
  | ErrListenerClosed
  | Canceled
  | DeadlineExceeded
  | ErrorString string
  | WrapError string go_error

datatype panic = CloseOfClosedChannel | SendOnClosedChannel | NilDereference

datatype msg_type = TextMessage | BinaryMessage | CloseMessage

text \<open>What \<open>http.Error(w, msg, code)\<close> is given as message: a literal, or \<open>err.Error()\<close>.\<close>

datatype http_msg = Lit string | ErrorOf go_error

datatype event =
    EvWrite conn msg_type bytes
  | EvRead conn
  | EvClose conn
  | EvGoClose conn int string
  | EvCloseSig sig
  | EvCheck
  | EvHttpError http_msg int
  | EvUpgrade

text \<open>
  The part of the process state the package touches: the \<open>chan struct{}\<close> values made so
  far (\<open>nsigs\<close> of them, named \<open>0 ..< nsigs\<close>), which of them have been closed, and the log
  of calls on the collaborators.
\<close>

record world =
  nsigs :: nat
  fired :: "sig set"
  events :: "event list"

definition world0 :: world where
  "world0 = \<lparr>nsigs = 0, fired = {}, events = []\<rparr>"

text \<open>\<open>make(chan struct{})\<close>.\<close>

definition make_sig :: "world \<Rightarrow> sig \<times> world" where
  "make_sig w = (nsigs w, w\<lparr>nsigs := Suc (nsigs w)\<rparr>)"

text \<open>\<open>close(d)\<close> for a non-nil \<open>d\<close>: closing a closed channel panics.\<close>

definition close_sig :: "sig \<Rightarrow> world \<Rightarrow> panic + world" where
  "close_sig d w =
     (if d \<in> fired w then Inl CloseOfClosedChannel
      else Inr (w\<lparr>fired := insert d (fired w), events := events w @ [EvCloseSig d]\<rparr>))"

text \<open>
  Waiting on a signal (\<open><-d\<close>): a nil channel blocks forever, an open one blocks until it
  is closed, a closed one is ready.
\<close>

datatype waiting = Ready | BlocksUntilClosed | BlocksForever

definition wait_sig :: "sig option \<Rightarrow> world \<Rightarrow> waiting" where
  "wait_sig d w =
     (case d of None \<Rightarrow> BlocksForever
      | Some s \<Rightarrow> if s \<in> fired w then Ready else BlocksUntilClosed)"

text \<open>Every closed signal has been made.\<close>

definition world_ok :: "world \<Rightarrow> bool" where
  "world_ok w = (fired w \<subseteq> {..<nsigs w})"

text \<open>The results of the calls on a connection, given the log so far.\<close>

record transport =
  write_result :: "event list \<Rightarrow> conn \<Rightarrow> msg_type \<Rightarrow> bytes \<Rightarrow> go_error option"
  read_result :: "event list \<Rightarrow> conn \<Rightarrow> go_error + (msg_type \<times> bytes)"
  close_result :: "event list \<Rightarrow> conn \<Rightarrow> go_error option"

definition conn_write ::
  "transport \<Rightarrow> conn \<Rightarrow> msg_type \<Rightarrow> bytes \<Rightarrow> world \<Rightarrow> go_error option \<times> world" where
  "conn_write T cn t d w =
     (write_result T (events w) cn t d, w\<lparr>events := events w @ [EvWrite cn t d]\<rparr>)"

definition conn_read ::
  "transport \<Rightarrow> conn \<Rightarrow> world \<Rightarrow> (go_error + (msg_type \<times> bytes)) \<times> world" where
  "conn_read T cn w = (read_result T (events w) cn, w\<lparr>events := events w @ [EvRead cn]\<rparr>)"

definition conn_close :: "transport \<Rightarrow> conn \<Rightarrow> world \<Rightarrow> go_error option \<times> world" where
  "conn_close T cn w = (close_result T (events w) cn, w\<lparr>events := events w @ [EvClose cn]\<rparr>)"

text \<open>
  \<open>errors.Is(err, target)\<close> for a non-nil comparable \<open>target\<close>: \<open>err\<close> or an error it wraps
  is equal to the target.  None of the error types here has an \<open>Is\<close> method.  A nil
  \<open>err\<close> never matches a non-nil target.
\<close>

fun errors_Is :: "go_error \<Rightarrow> go_error \<Rightarrow> bool" where
  "errors_Is (WrapError p e) t = (if WrapError p e = t then True else errors_Is e t)"
| "errors_Is e t = (e = t)"

text \<open>\<open>errors.Unwrap(err)\<close>: what \<open>fmt.Errorf\<close> wrapped with \<open>%w\<close>, and nil otherwise.\<close>

fun errors_Unwrap :: "go_error \<Rightarrow> go_error option" where
  "errors_Unwrap (WrapError p e) = Some e"
| "errors_Unwrap e = None"

text \<open>\<open>closeMessage = websocket.FormatCloseMessage(websocket.CloseNormalClosure, "")\<close>: the
  status 1000 as two bytes, big-endian, and no text.\<close>

definition closeMessage :: bytes where
  "closeMessage = [CHR 0x03, CHR 0xE8]"

definition StatusNormalClosure :: int where
  "StatusNormalClosure = 1000"

section \<open>The first channel: gorilla/websocket, no completion signal\<close>

record Channel0 =
  ch0_c :: conn

text \<open>
  \<^verbatim>\<open>err := c.c.WriteMessage(websocket.CloseMessage, closeMessage)
  cerr := c.c.Close()
  if err != nil { return err }
  return cerr\<close>
\<close>

definition Close0 :: "transport \<Rightarrow> Channel0 \<Rightarrow> world \<Rightarrow> go_error option \<times> world" where
  "Close0 T ch w =
     (let (err, w1) = conn_write T (ch0_c ch) CloseMessage closeMessage w;
          (cerr, w2) = conn_close T (ch0_c ch) w1
      in if err \<noteq> None then (err, w2) else (cerr, w2))"

section \<open>The gorilla channel with a completion signal\<close>

record Channel =
  ch_c :: conn
  ch_done :: "sig option"

text \<open>\<open>if _, ok := err.(*websocket.CloseError); ok { return net.ErrClosed }; return err\<close>\<close>

fun filterErr_g :: "go_error option \<Rightarrow> go_error option" where
  "filterErr_g None = None"
| "filterErr_g (Some (CloseErrorPtr x)) = Some ErrClosed"
| "filterErr_g (Some e) = Some e"

definition Send_g :: "transport \<Rightarrow> Channel \<Rightarrow> bytes \<Rightarrow> world \<Rightarrow> go_error option \<times> world" where
  "Send_g T ch d w =
     (let (err, w1) = conn_write T (ch_c ch) BinaryMessage d w in (filterErr_g err, w1))"

definition Recv_g ::
  "transport \<Rightarrow> Channel \<Rightarrow> world \<Rightarrow> (bytes option \<times> go_error option) \<times> world" where
  "Recv_g T ch w =
     (let (r, w1) = conn_read T (ch_c ch) w
      in case r of
           Inl err \<Rightarrow> ((None, filterErr_g (Some err)), w1)
         | Inr (t, bits) \<Rightarrow> ((Some bits, None), w1))"

text \<open>
  \<^verbatim>\<open>err := c.c.WriteMessage(websocket.CloseMessage, closeMessage)
  cerr := c.c.Close()
  if err != nil { return err }
  if c.done != nil { close(c.done) }
  return cerr\<close>
  The result is the panic or the returned error; the world is returned in both cases.
\<close>

definition Close_g ::
  "transport \<Rightarrow> Channel \<Rightarrow> world \<Rightarrow> (panic + go_error option) \<times> world" where
  "Close_g T ch w =
     (let (err, w1) = conn_write T (ch_c ch) CloseMessage closeMessage w;
          (cerr, w2) = conn_close T (ch_c ch) w1
      in if err \<noteq> None then (Inr err, w2)
         else (case ch_done ch of
                 None \<Rightarrow> (Inr cerr, w2)
               | Some d \<Rightarrow>
                   (case close_sig d w2 of
                      Inl p \<Rightarrow> (Inl p, w2)
                    | Inr w3 \<Rightarrow> (Inr cerr, w3))))"

text \<open>\<open>func New(conn *websocket.Conn) *Channel { return &Channel{c: conn} }\<close>\<close>

definition New_g :: "conn \<Rightarrow> Channel" where
  "New_g cn = \<lparr>ch_c = cn, ch_done = None\<rparr>"

section \<open>The nhooyr channel, with Done\<close>

text \<open>\<open>if errors.Is(err, (*websocket.CloseError)(nil)) { return net.ErrClosed }; return err\<close>\<close>

definition filterErr :: "go_error option \<Rightarrow> go_error option" where
  "filterErr err =
     (case err of
        None \<Rightarrow> None
      | Some e \<Rightarrow> if errors_Is e (CloseErrorPtr None) then Some ErrClosed else Some e)"

definition Send :: "transport \<Rightarrow> Channel \<Rightarrow> bytes \<Rightarrow> world \<Rightarrow> go_error option \<times> world" where
  "Send T ch d w =
     (let (err, w1) = conn_write T (ch_c ch) BinaryMessage d w in (filterErr err, w1))"

definition Recv ::
  "transport \<Rightarrow> Channel \<Rightarrow> world \<Rightarrow> (bytes option \<times> go_error option) \<times> world" where
  "Recv T ch w =
     (let (r, w1) = conn_read T (ch_c ch) w
      in case r of
           Inl err \<Rightarrow> ((None, filterErr (Some err)), w1)
         | Inr (t, bits) \<Rightarrow> ((Some bits, None), w1))"

text \<open>
  \<^verbatim>\<open>if c.done != nil {
      close(c.done)
      go c.c.Close(websocket.StatusNormalClosure, "bye")
      c.done = nil
  }
  return nil\<close>
  The transport is closed by a goroutine of its own, whose result is dropped; the event
  \<open>EvGoClose\<close> is its start.  The channel is returned as the call leaves it.
\<close>

definition Close ::
  "Channel \<Rightarrow> world \<Rightarrow> (panic + go_error option) \<times> Channel \<times> world" where
  "Close ch w =
     (case ch_done ch of
        None \<Rightarrow> (Inr None, ch, w)
      | Some d \<Rightarrow>
          (case close_sig d w of
             Inl p \<Rightarrow> (Inl p, ch, w)
           | Inr w1 \<Rightarrow>
               (Inr None, ch\<lparr>ch_done := None\<rparr>,
                w1\<lparr>events := events w1 @ [EvGoClose (ch_c ch) StatusNormalClosure ''bye'']\<rparr>)))"

text \<open>\<open>n\<close> calls of \<open>Close\<close> on the same channel, one after the other, and what each returned.\<close>

fun Close_times ::
  "nat \<Rightarrow> Channel \<Rightarrow> world \<Rightarrow> (panic + go_error option) list \<times> Channel \<times> world" where
  "Close_times 0 ch w = ([], ch, w)"
| "Close_times (Suc n) ch w =
     (case Close ch w of
        (r, ch1, w1) \<Rightarrow>
          (case Close_times n ch1 w1 of (rs, ch2, w2) \<Rightarrow> (r # rs, ch2, w2)))"

text \<open>\<open>func (c *Channel) Done() <-chan struct{} { return c.done }\<close>\<close>

definition Done :: "Channel \<Rightarrow> sig option" where
  "Done ch = ch_done ch"

text \<open>\<open>return &Channel{c: conn, done: make(chan struct{})}\<close>\<close>

definition New :: "conn \<Rightarrow> world \<Rightarrow> Channel \<times> world" where
  "New cn w = (let (d, w1) = make_sig w in (\<lparr>ch_c = cn, ch_done = Some d\<rparr>, w1))"

section \<open>Dialing\<close>

type_synonym header = "(string \<times> string list) list"

text \<open>
  An HTTP response as far as \<open>Dial\<close> reads it: the status, and what
  \<open>io.ReadAll(rsp.Body)\<close> returns (the bytes read and the error, if any).
\<close>

record response =
  StatusCode :: int
  Body :: "bytes \<times> go_error option"

text \<open>
  What the websocket library's dial returns: a connection, or an error together with the
  HTTP response when there is one.
\<close>

datatype dial_result = Connected conn | Failed "response option" go_error

type_synonym dialer = "string \<Rightarrow> header \<Rightarrow> dial_result"

record DialOptions =
  Header :: header
  Dialer :: "dialer option"

text \<open>The options are passed by pointer: \<open>None\<close> is the nil pointer.\<close>

definition header_g :: "DialOptions option \<Rightarrow> header" where
  "header_g opts = (case opts of None \<Rightarrow> [] | Some x \<Rightarrow> Header x)"

text \<open>\<open>DefaultDialer\<close> is \<open>websocket.DefaultDialer\<close>.\<close>

definition dialer_g :: "dialer \<Rightarrow> DialOptions option \<Rightarrow> dialer" where
  "dialer_g DefaultDialer opts =
     (case opts of
        None \<Rightarrow> DefaultDialer
      | Some x \<Rightarrow> (case Dialer x of None \<Rightarrow> DefaultDialer | Some d \<Rightarrow> d))"

text \<open>
  \<^verbatim>\<open>conn, rsp, err := opts.dialer().Dial(url, opts.header())
  if err != nil {
      if err != websocket.ErrBadHandshake {
          return nil, fmt.Errorf("dial: %w", err)
      } else if msg, err := io.ReadAll(rsp.Body); err == nil && len(msg) != 0 {
          return nil, fmt.Errorf("dial: %s", strings.TrimSpace(string(msg)))
      }
      return nil, err
  }
  return &Channel{c: conn}, nil\<close>
  \<open>TrimSpace\<close> is \<open>strings.TrimSpace\<close>.  The \<open>err\<close> of the last \<open>return nil, err\<close> is the
  dial error: the one declared in the \<open>else if\<close> is out of scope there.
\<close>

definition Dial ::
  "(string \<Rightarrow> string) \<Rightarrow> dialer \<Rightarrow> string \<Rightarrow> DialOptions option \<Rightarrow>
     panic + (Channel option \<times> go_error option)" where
  "Dial TrimSpace DefaultDialer url opts =
     (case (dialer_g DefaultDialer opts) url (header_g opts) of
        Connected cn \<Rightarrow> Inr (Some \<lparr>ch_c = cn, ch_done = None\<rparr>, None)
      | Failed rsp err \<Rightarrow>
          if err \<noteq> ErrBadHandshake then Inr (None, Some (WrapError ''dial: '' err))
          else (case rsp of
                  None \<Rightarrow> Inl NilDereference
                | Some r \<Rightarrow>
                    (let (msg, rerr) = Body r
                     in if rerr = None \<and> length msg \<noteq> 0
                        then Inr (None, Some (ErrorString (''dial: '' @ TrimSpace msg)))
                        else Inr (None, Some err))))"

text \<open>
  The message of an error made by \<open>Dial\<close> carries the context \<open>dial: \<close> when it is
  \<open>fmt.Errorf("dial: ...")\<close>, with or without \<open>%w\<close>.
\<close>

definition dial_context :: "go_error \<Rightarrow> bool" where
  "dial_context e =
     (case e of
        WrapError p x \<Rightarrow> p = ''dial: ''
      | ErrorString s \<Rightarrow> take 6 s = ''dial: ''
      | _ \<Rightarrow> False)"

text \<open>
  The nhooyr revision: \<open>websocket.Dial(ctx, url, &websocket.DialOptions{HTTPClient: ...,
  HTTPHeader: ...})\<close>, then \<open>New(conn)\<close>; an error is returned as it is.  An
  \<open>*http.Client\<close> is its identity.
\<close>

record DialOptions_n =
  HTTPClient :: "nat option"
  Header_n :: header

definition header_n :: "DialOptions_n option \<Rightarrow> header" where
  "header_n opts = (case opts of None \<Rightarrow> [] | Some x \<Rightarrow> Header_n x)"

definition client_n :: "DialOptions_n option \<Rightarrow> nat option" where
  "client_n opts = (case opts of None \<Rightarrow> None | Some x \<Rightarrow> HTTPClient x)"

definition DialContext ::
  "(string \<Rightarrow> nat option \<Rightarrow> header \<Rightarrow> dial_result) \<Rightarrow> string \<Rightarrow> DialOptions_n option \<Rightarrow>
     world \<Rightarrow> (Channel option \<times> go_error option) \<times> world" where
  "DialContext ws_Dial url opts w =
     (case ws_Dial url (client_n opts) (header_n opts) of
        Failed rsp err \<Rightarrow> ((None, Some err), w)
      | Connected cn \<Rightarrow> (let (ch, w1) = New cn w in ((Some ch, None), w1)))"

section \<open>The listener with a bounded queue\<close>

text \<open>
  A buffered Go channel: the values sent and not yet received, the capacity, and whether
  \<open>close\<close> has been called on it.
\<close>

record 'a chan =
  q_buf :: "'a list"
  q_cap :: nat
  q_closed :: bool

text \<open>\<open>make(chan T, n)\<close> for \<open>n \<ge> 0\<close>.\<close>

definition make_chan :: "int \<Rightarrow> 'a chan" where
  "make_chan n = \<lparr>q_buf = [], q_cap = nat n, q_closed = False\<rparr>"

text \<open>
  \<open>q <- x\<close>: panics on a closed channel, goes through when the buffer has room, and
  blocks otherwise.
\<close>

datatype 'a send_result = Sent "'a chan" | SendBlocks | SendPanics

definition chan_send :: "'a chan \<Rightarrow> 'a \<Rightarrow> 'a send_result" where
  "chan_send q x =
     (if q_closed q then SendPanics
      else if length (q_buf q) < q_cap q then Sent (q\<lparr>q_buf := q_buf q @ [x]\<rparr>)
      else SendBlocks)"

text \<open>
  \<open>x, ok := <-q\<close>: the oldest buffered value; on an empty buffer, \<open>ok = false\<close> when the
  channel is closed, and the receive blocks otherwise.
\<close>

datatype 'a recv_result = Received 'a "'a chan" | RecvClosed | RecvBlocks

definition chan_recv :: "'a chan \<Rightarrow> 'a recv_result" where
  "chan_recv q =
     (case q_buf q of
        x # xs \<Rightarrow> Received x (q\<lparr>q_buf := xs\<rparr>)
      | [] \<Rightarrow> if q_closed q then RecvClosed else RecvBlocks)"

type_synonym request = header

text \<open>
  \<open>lst.u.Upgrade(w, req, lst.hdr)\<close>: the result given the log so far; on an error the
  upgrader has written the response itself.
\<close>

type_synonym upgrader = "event list \<Rightarrow> request \<Rightarrow> header \<Rightarrow> go_error + conn"

definition Upgrade ::
  "upgrader \<Rightarrow> request \<Rightarrow> header \<Rightarrow> world \<Rightarrow> (go_error + conn) \<times> world" where
  "Upgrade u req hdr w = (u (events w) req hdr, w\<lparr>events := events w @ [EvUpgrade]\<rparr>)"

record ListenOptions =
  MaxPending :: int
  CheckAccept :: "(request \<Rightarrow> int \<times> go_error option) option"
  Header_l :: header
  Upgrader :: upgrader

definition maxPending :: "ListenOptions option \<Rightarrow> int" where
  "maxPending opts =
     (case opts of None \<Rightarrow> 1 | Some x \<Rightarrow> if MaxPending x \<le> 0 then 1 else MaxPending x)"

definition check :: "ListenOptions option \<Rightarrow> request \<Rightarrow> int \<times> go_error option" where
  "check opts =
     (case opts of
        None \<Rightarrow> (\<lambda>req. (0, None))
      | Some x \<Rightarrow> (case CheckAccept x of None \<Rightarrow> (\<lambda>req. (0, None)) | Some f \<Rightarrow> f))"

definition header_l :: "ListenOptions option \<Rightarrow> header" where
  "header_l opts = (case opts of None \<Rightarrow> [] | Some x \<Rightarrow> Header_l x)"

text \<open>\<open>zero\<close> is \<open>websocket.Upgrader{}\<close>.\<close>

definition upgrader_l :: "upgrader \<Rightarrow> ListenOptions option \<Rightarrow> upgrader" where
  "upgrader_l zero opts = (case opts of None \<Rightarrow> zero | Some x \<Rightarrow> Upgrader x)"

record Listener =
  lst_u :: upgrader
  lst_hdr :: header
  lst_check :: "request \<Rightarrow> int \<times> go_error option"
  lst_inc :: "Channel chan"
  lst_closed :: bool

definition NewListener :: "upgrader \<Rightarrow> ListenOptions option \<Rightarrow> Listener" where
  "NewListener zero opts =
     \<lparr>lst_u = upgrader_l zero opts, lst_hdr = header_l opts, lst_check = check opts,
      lst_inc = make_chan (maxPending opts), lst_closed = False\<rparr>"

definition StatusInternalServerError :: int where
  "StatusInternalServerError = 500"

definition StatusServiceUnavailable :: int where
  "StatusServiceUnavailable = 503"

text \<open>How an invocation of the handler ends, or where it stays.\<close>

datatype serve_outcome =
  Returned | WaitDone sig | WaitNil | BlockedOnSend | ServePanic panic

text \<open>
  \<^verbatim>\<open>if code, err := lst.check(req); err != nil {
      if code <= 0 { code = http.StatusInternalServerError }
      http.Error(w, err.Error(), code)
      return
  }
  lst.mu.Lock()
  done := func() <-chan struct{} {
      defer lst.mu.Unlock()
      if lst.closed {
          http.Error(w, "listener is closed", http.StatusInternalServerError)
          return nil
      } else if len(lst.inc) == cap(lst.inc) {
          http.Error(w, "connection queue is full", http.StatusServiceUnavailable)
          return nil
      }
      conn, err := lst.u.Upgrade(w, req, lst.hdr)
      if err != nil { return nil }
      ch := New(conn)
      lst.inc <- ch
      return ch.done
  }()
  if done != nil { <-done }\<close>
  The section under the mutex is one step.  \<open>WaitDone d\<close> is the handler at \<open><-done\<close>;
  \<open>WaitNil\<close> is a handler receiving from a nil channel, which never ends.
\<close>

definition ServeHTTP :: "Listener \<Rightarrow> request \<Rightarrow> world \<Rightarrow> serve_outcome \<times> Listener \<times> world" where
  "ServeHTTP lst req w =
     (let (code, err) = lst_check lst req;
          w0 = w\<lparr>events := events w @ [EvCheck]\<rparr>
      in case err of
           Some e \<Rightarrow>
             (Returned, lst,
              w0\<lparr>events := events w0 @
                    [EvHttpError (ErrorOf e)
                       (if code \<le> 0 then StatusInternalServerError else code)]\<rparr>)
         | None \<Rightarrow>
             if lst_closed lst then
               (Returned, lst,
                w0\<lparr>events := events w0 @
                      [EvHttpError (Lit ''listener is closed'') StatusInternalServerError]\<rparr>)
             else if length (q_buf (lst_inc lst)) = q_cap (lst_inc lst) then
               (Returned, lst,
                w0\<lparr>events := events w0 @
                      [EvHttpError (Lit ''connection queue is full'') StatusServiceUnavailable]\<rparr>)
             else
               (case Upgrade (lst_u lst) req (lst_hdr lst) w0 of
                  (Inl uerr, w1) \<Rightarrow> (Returned, lst, w1)
                | (Inr cn, w1) \<Rightarrow>
                    (let (ch, w2) = New cn w1
                     in case chan_send (lst_inc lst) ch of
                          SendPanics \<Rightarrow> (ServePanic SendOnClosedChannel, lst, w2)
                        | SendBlocks \<Rightarrow> (BlockedOnSend, lst, w2)
                        | Sent q \<Rightarrow>
                            (case ch_done ch of
                               None \<Rightarrow> (Returned, lst\<lparr>lst_inc := q\<rparr>, w2)
                             | Some d \<Rightarrow> (WaitDone d, lst\<lparr>lst_inc := q\<rparr>, w2)))))"

text \<open>
  \<^verbatim>\<open>select {
  case <-ctx.Done():
      return nil, ctx.Err()
  case sc, ok := <-lst.inc:
      if !ok { return nil, ErrListenerClosed }
      return sc, nil
  }\<close>
  The context is given by \<open>ctx.Err()\<close>, which is non-nil exactly when \<open>ctx.Done()\<close> is
  closed.  When both cases can proceed, \<open>select\<close> takes one of them by a pseudo-random
  choice: \<open>pick\<close> is that choice (\<open>True\<close> for the first case).  \<open>AcceptBlocks\<close> is the call
  staying in the \<open>select\<close>.  The text is the same in every revision of the listener, so
  the definition is given for every extension of the record.
\<close>

datatype accept_outcome = AcceptBlocks | AcceptReturns "Channel option" "go_error option"

definition recv_case ::
  "Channel recv_result \<Rightarrow> 'a Listener_scheme \<Rightarrow> accept_outcome \<times> 'a Listener_scheme" where
  "recv_case r lst =
     (case r of
        Received sc q \<Rightarrow> (AcceptReturns (Some sc) None, lst\<lparr>lst_inc := q\<rparr>)
      | RecvClosed \<Rightarrow> (AcceptReturns None (Some ErrListenerClosed), lst)
      | RecvBlocks \<Rightarrow> (AcceptBlocks, lst))"

definition Accept ::
  "bool \<Rightarrow> go_error option \<Rightarrow> 'a Listener_scheme \<Rightarrow> accept_outcome \<times> 'a Listener_scheme" where
  "Accept pick ctx_Err lst =
     (let r = chan_recv (lst_inc lst)
      in case ctx_Err of
           None \<Rightarrow> recv_case r lst
         | Some e \<Rightarrow>
             if r = RecvBlocks then (AcceptReturns None (Some e), lst)
             else if pick then (AcceptReturns None (Some e), lst)
             else recv_case r lst)"

text \<open>
  \<open>for ch := range lst.inc { if err := ch.Close(); cerr == nil { cerr = err } }\<close> on the
  closed queue: every buffered channel is received and closed.  A panic leaves the
  channels not yet received in the queue.
\<close>

fun drain ::
  "Channel list \<Rightarrow> go_error option \<Rightarrow> world \<Rightarrow> (panic + go_error option) \<times> Channel list \<times> world"
  where
  "drain [] cerr w = (Inr cerr, [], w)"
| "drain (ch # rest) cerr w =
     (case Close ch w of
        (Inl p, ch1, w1) \<Rightarrow> (Inl p, rest, w1)
      | (Inr err, ch1, w1) \<Rightarrow> drain rest (if cerr = None then err else cerr) w1)"

text \<open>
  \<^verbatim>\<open>lst.mu.Lock()
  defer lst.mu.Unlock()
  if lst.closed { return ErrListenerClosed }
  close(lst.inc)
  var cerr error
  for ch := range lst.inc { ... }
  lst.closed = true
  return cerr\<close>
\<close>

definition Listener_Close ::
  "Listener \<Rightarrow> world \<Rightarrow> (panic + go_error option) \<times> Listener \<times> world" where
  "Listener_Close lst w =
     (if lst_closed lst then (Inr (Some ErrListenerClosed), lst, w)
      else if q_closed (lst_inc lst) then (Inl CloseOfClosedChannel, lst, w)
      else (case drain (q_buf (lst_inc lst)) None w of
              (Inl p, rest, w1) \<Rightarrow>
                (Inl p, lst\<lparr>lst_inc := (lst_inc lst)\<lparr>q_buf := rest, q_closed := True\<rparr>\<rparr>, w1)
            | (Inr cerr, rest, w1) \<Rightarrow>
                (Inr cerr,
                 lst\<lparr>lst_inc := (lst_inc lst)\<lparr>q_buf := rest, q_closed := True\<rparr>,
                     lst_closed := True\<rparr>, w1)))"

text \<open>
  What the listener relies on between its steps: the queue holds no more than its
  capacity, and it is closed exactly when the \<open>closed\<close> flag is set (both change together
  under the mutex).
\<close>

definition queue_ok :: "'a Listener_scheme \<Rightarrow> bool" where
  "queue_ok lst =
     (length (q_buf (lst_inc lst)) \<le> q_cap (lst_inc lst) \<and>
      q_closed (lst_inc lst) = lst_closed lst)"

text \<open>
  Every queued channel still has its completion signal, made and not yet closed, and no
  two of them share one: the queue holds the only reference to each.
\<close>

definition open_done :: "world \<Rightarrow> Channel \<Rightarrow> bool" where
  "open_done w ch =
     (case ch_done ch of None \<Rightarrow> False | Some d \<Rightarrow> d < nsigs w \<and> d \<notin> fired w)"

definition pending_ok :: "'a Listener_scheme \<Rightarrow> world \<Rightarrow> bool" where
  "pending_ok lst w =
     (list_all (open_done w) (q_buf (lst_inc lst)) \<and>
      distinct (map ch_done (q_buf (lst_inc lst))))"

text \<open>The events of closing the queued channels one after the other.\<close>

fun closing_events :: "Channel list \<Rightarrow> event list" where
  "closing_events [] = []"
| "closing_events (ch # rest) =
     (case ch_done ch of
        None \<Rightarrow> closing_events rest
      | Some d \<Rightarrow>
          EvCloseSig d # EvGoClose (ch_c ch) StatusNormalClosure ''bye'' # closing_events rest)"

section \<open>The listener with a wait group\<close>

text \<open>
  The earlier listener: the handler upgrades first and then calls \<open>add\<close>, which starts a
  goroutine that sends the channel to the queue (capacity 1) and waits for \<open>done\<close>.  The
  goroutines started are kept with the channel each one is to send; \<open>lst_wg\<close> is the
  counter of the \<open>sync.WaitGroup\<close>.  \<open>Accept\<close> is the same text in both listeners.
\<close>

record Listener_wg = Listener +
  lst_wg :: nat
  lst_spawned :: "Channel list"

text \<open>
  \<^verbatim>\<open>lst.mu.Lock()
  defer lst.mu.Unlock()
  if lst.closed { return nil, ErrListenerClosed }
  lst.wg.Add(1)
  done := make(chan struct{})
  go func() {
      defer lst.wg.Done()
      lst.inc <- &Channel{c: conn, done: done}
      <-done
  }()
  return done, nil\<close>
\<close>

definition add ::
  "conn \<Rightarrow> Listener_wg \<Rightarrow> world \<Rightarrow> (sig option \<times> go_error option) \<times> Listener_wg \<times> world" where
  "add cn lst w =
     (if lst_closed lst then ((None, Some ErrListenerClosed), lst, w)
      else (let (d, w1) = make_sig w
            in ((Some d, None),
                lst\<lparr>lst_wg := lst_wg lst + 1,
                    lst_spawned := lst_spawned lst @ [\<lparr>ch_c = cn, ch_done = Some d\<rparr>]\<rparr>,
                w1)))"


section \<open>Collaborators and states the theorems are instantiated with\<close>

text \<open>
  A connection as gorilla/websocket behaves once a close message has been written on it:
  later writes fail with \<open>ErrCloseSent\<close>.  Reads deliver a message, \<open>Close\<close> succeeds.
\<close>

definition conn_gorilla :: transport where
  "conn_gorilla =
     \<lparr>write_result =
        (\<lambda>h cn t d. if EvWrite cn CloseMessage closeMessage \<in> set h then Some ErrCloseSent else None),
      read_result = (\<lambda>h cn. Inr (BinaryMessage, ''ping'')),
      close_result = (\<lambda>h cn. None)\<rparr>"

text \<open>A connection on which writing fails and closing fails, with different errors.\<close>

definition conn_broken :: transport where
  "conn_broken =
     \<lparr>write_result = (\<lambda>h cn t d. Some (ErrorString ''broken pipe'')),
      read_result = (\<lambda>h cn. Inl (ErrorString ''broken pipe'')),
      close_result = (\<lambda>h cn. Some (ErrorString ''already closed''))\<rparr>"

text \<open>
  The error nhooyr.io/websocket returns from \<open>Read\<close> when the peer has sent a close frame
  with status 1000 and reason \<open>bye\<close>: the \<open>CloseError\<close> value, wrapped twice.
\<close>

definition close_frame_error :: go_error where
  "close_frame_error =
     WrapError ''failed to get reader: ''
       (WrapError ''received close frame: '' (CloseErrorVal 1000 ''bye''))"

definition conn_peer_closed :: transport where
  "conn_peer_closed =
     \<lparr>write_result = (\<lambda>h cn t d. Some close_frame_error),
      read_result = (\<lambda>h cn. Inl close_frame_error),
      close_result = (\<lambda>h cn. None)\<rparr>"

text \<open>An upgrader that accepts every request; the connection is numbered by the log.\<close>

definition upgrade_any :: upgrader where
  "upgrade_any h req hdr = Inr (length h)"


text \<open>A listener of capacity 1 after one admitted connection, and the world it is in.\<close>

definition listener_one :: Listener where
  "listener_one = fst (snd (ServeHTTP (NewListener upgrade_any None) [] world0))"

definition world_one :: world where
  "world_one = snd (snd (ServeHTTP (NewListener upgrade_any None) [] world0))"

text \<open>A listener with \<open>MaxPending = 2\<close> after two admitted connections.\<close>

definition options_two :: ListenOptions where
  "options_two = \<lparr>MaxPending = 2, CheckAccept = None, Header_l = [], Upgrader = upgrade_any\<rparr>"




text \<open>A dialer whose handshake is refused with status 403 and the given body.\<close>

definition dialer_refused :: "bytes \<Rightarrow> dialer" where
  "dialer_refused b url hdr = Failed (Some \<lparr>StatusCode = 403, Body = (b, None)\<rparr>) ErrBadHandshake"

section \<open>Closing a gorilla channel\<close>

text \<open>
  C1.  In both gorilla revisions \<open>Close\<close> first writes the close message on the
  connection and then closes the connection, whatever the write returned: the two calls
  are the first two entries the call adds to the log, in this order.  The value returned
  is the error of the write when there is one, and the error of closing the connection
  otherwise.  (In the revision with a \<open>done\<close> field the call does not return when the write
  succeeded and \<open>done\<close> was closed before: closing it again panics.)
\<close>

theorem Close_notifies_then_closes_transport:
  "events (snd (Close0 T c0 w)) =
     events w @ [EvWrite (ch0_c c0) CloseMessage closeMessage, EvClose (ch0_c c0)] \<and>
   fst (Close0 T c0 w) =
     (case write_result T (events w) (ch0_c c0) CloseMessage closeMessage of
        Some e \<Rightarrow> Some e
      | None \<Rightarrow>
          close_result T (events w @ [EvWrite (ch0_c c0) CloseMessage closeMessage]) (ch0_c c0)) \<and>
   take 2 (drop (length (events w)) (events (snd (Close_g T ch w)))) =
     [EvWrite (ch_c ch) CloseMessage closeMessage, EvClose (ch_c ch)] \<and>
   fst (Close_g T ch w) =
     (case write_result T (events w) (ch_c ch) CloseMessage closeMessage of
        Some e \<Rightarrow> Inr (Some e)
      | None \<Rightarrow>
          (case ch_done ch of
             None \<Rightarrow>
               Inr (close_result T (events w @ [EvWrite (ch_c ch) CloseMessage closeMessage])
                      (ch_c ch))
           | Some d \<Rightarrow>
               if d \<in> fired w then Inl CloseOfClosedChannel
               else Inr (close_result T (events w @ [EvWrite (ch_c ch) CloseMessage closeMessage])
                           (ch_c ch))))"
  by (auto simp: Close0_def Close_g_def conn_write_def conn_close_def close_sig_def Let_def
      split: option.splits sum.splits)

text \<open>
  On a connection where the write fails and closing fails too, the connection is still
  closed, the write error is the one returned, and \<open>done\<close> stays open.
\<close>

lemma Close_g_on_broken_connection:
  "Close_g conn_broken \<lparr>ch_c = 7, ch_done = Some 0\<rparr> \<lparr>nsigs = 1, fired = {}, events = []\<rparr> =
     (Inr (Some (ErrorString ''broken pipe'')),
      \<lparr>nsigs = 1, fired = {}, events = [EvWrite 7 CloseMessage closeMessage, EvClose 7]\<rparr>)"
  by (simp add: Close_g_def conn_broken_def conn_write_def conn_close_def)

section \<open>Closing a nhooyr channel\<close>

lemma Close_nil_done: "ch_done ch = None \<Longrightarrow> Close ch w = (Inr None, ch, w)"
  by (simp add: Close_def)

lemma Close_times_nil_done:
  "ch_done ch = None \<Longrightarrow> Close_times n ch w = (replicate n (Inr None), ch, w)"
  by (induction n) (simp_all add: Close_nil_done)

lemma New_eq: "New cn w = (\<lparr>ch_c = cn, ch_done = Some (nsigs w)\<rparr>, w\<lparr>nsigs := Suc (nsigs w)\<rparr>)"
  by (simp add: New_def make_sig_def)

lemma world_ok_fresh: "world_ok w \<Longrightarrow> nsigs w \<notin> fired w"
  by (auto simp: world_ok_def split: if_splits)

lemma world_ok_world0: "world_ok world0"
  by (simp add: world_ok_def world0_def)

lemma Close_open_done:
  "ch_done ch = Some d \<Longrightarrow> d \<notin> fired w \<Longrightarrow>
     Close ch w =
       (Inr None, ch\<lparr>ch_done := None\<rparr>,
        w\<lparr>fired := insert d (fired w),
          events := events w @ [EvCloseSig d, EvGoClose (ch_c ch) StatusNormalClosure ''bye'']\<rparr>)"
  by (simp add: Close_def close_sig_def)

lemma Close_after_New:
  assumes "world_ok w"
  shows "Close \<lparr>ch_c = cn, ch_done = Some (nsigs w)\<rparr> (w\<lparr>nsigs := Suc (nsigs w)\<rparr>) =
           (Inr None, \<lparr>ch_c = cn, ch_done = None\<rparr>,
            w\<lparr>nsigs := Suc (nsigs w), fired := insert (nsigs w) (fired w),
              events := events w @
                [EvCloseSig (nsigs w), EvGoClose cn StatusNormalClosure ''bye'']\<rparr>)"
proof -
  let ?ch = "\<lparr>ch_c = cn, ch_done = Some (nsigs w)\<rparr>"
  let ?w1 = "w\<lparr>nsigs := Suc (nsigs w)\<rparr>"
  have "nsigs w \<notin> fired ?w1" using world_ok_fresh [OF assms] by simp
  then show ?thesis using Close_open_done [of ?ch "nsigs w" ?w1] by simp
qed

lemma world_ok_New: "world_ok w \<Longrightarrow> world_ok (snd (New cn w))"
  by (auto simp: New_eq world_ok_def split: if_splits)

lemma world_ok_Close: "world_ok w \<Longrightarrow> open_done w ch \<Longrightarrow> world_ok (snd (snd (Close ch w)))"
  by (auto simp: Close_def close_sig_def world_ok_def open_done_def split: if_splits option.splits)

text \<open>
  C2, as the code has it.  The claim holds for the nhooyr channel, whose \<open>Close\<close> is
  guarded by the \<open>done\<close> field: for a channel made by \<open>New\<close>, any number \<open>n + 1\<close> of calls
  of \<open>Close\<close> return nil without a panic and leave the state the first call left: \<open>done\<close>
  is closed once and the closing of the transport is started once, and a further
  \<open>Close\<close> changes neither the channel nor the world.  (The gorilla channel has no such
  guard: see the counterexample below.)
\<close>

theorem Close_guarded_fires_done_once:
  assumes "world_ok w"
  shows "case New cn w of
           (ch, w1) \<Rightarrow>
             (case Close ch w1 of
                (r, ch1, w2) \<Rightarrow>
                  Close_times (Suc n) ch w1 = (replicate (Suc n) (Inr None), ch1, w2) \<and>
                  events w2 =
                    events w @ [EvCloseSig (nsigs w), EvGoClose cn StatusNormalClosure ''bye''] \<and>
                  wait_sig (ch_done ch) w2 = Ready \<and>
                  Close ch1 w2 = (Inr None, ch1, w2))"
  by (simp add: New_eq Close_after_New [OF assms] Close_times_nil_done Close_nil_done wait_sig_def)

theorem Close_guarded_fires_done_once_witness:
  "world_ok world0 \<and>
   Close_times 3 (fst (New 5 world0)) (snd (New 5 world0)) =
     ([Inr None, Inr None, Inr None], \<lparr>ch_c = 5, ch_done = None\<rparr>,
      \<lparr>nsigs = 1, fired = {0},
         events = [EvCloseSig 0, EvGoClose 5 StatusNormalClosure ''bye'']\<rparr>)"
proof -
  have "Close_times (Suc 2) (fst (New 5 world0)) (snd (New 5 world0)) =
          (replicate (Suc 2) (Inr None), snd (Close (fst (New 5 world0)) (snd (New 5 world0))))"
    using Close_guarded_fires_done_once [OF world_ok_world0, where cn = 5 and n = 2]
    by (simp split: prod.splits)
  then show ?thesis
    using world_ok_world0
    by (simp add: New_eq Close_def close_sig_def world0_def numeral_3_eq_3)
qed

text \<open>
  The gorilla channel, closed twice on a connection that behaves as gorilla/websocket
  does: the second \<open>Close\<close> writes a close message and closes the transport again.
\<close>

theorem Close_g_twice_closes_transport_twice:
  "events (snd (Close_g conn_gorilla \<lparr>ch_c = 7, ch_done = Some 0\<rparr>
      (snd (Close_g conn_gorilla \<lparr>ch_c = 7, ch_done = Some 0\<rparr>
         \<lparr>nsigs = 1, fired = {}, events = []\<rparr>)))) =
   [EvWrite 7 CloseMessage closeMessage, EvClose 7, EvCloseSig 0,
    EvWrite 7 CloseMessage closeMessage, EvClose 7]"
  by (simp add: Close_g_def conn_gorilla_def conn_write_def conn_close_def close_sig_def)

text \<open>
  In the gorilla channel a failed close message also leaves \<open>done\<close> open: the call
  returns the write error before \<open>close(c.done)\<close>.
\<close>

lemma Close_g_write_error_keeps_done_open:
  "write_result T (events w) (ch_c ch) CloseMessage closeMessage = Some e \<Longrightarrow>
     fst (Close_g T ch w) = Inr (Some e) \<and> fired (snd (Close_g T ch w)) = fired w"
  by (simp add: Close_g_def conn_write_def conn_close_def)

text \<open>
  C10.  In the nhooyr revision a channel made by \<open>New\<close> (and so by \<open>DialContext\<close>) has a
  non-nil \<open>Done()\<close>, open until the first \<open>Close\<close>.  That \<open>Close\<close> sets the field to nil:
  afterwards \<open>Done()\<close> is nil, and waiting on it blocks forever, while the signal
  obtained before the \<open>Close\<close> has fired.  Further calls of \<open>Close\<close> leave the field nil.
\<close>

theorem Done_nil_after_Close:
  assumes "world_ok w"
  shows "case New cn w of
           (ch, w1) \<Rightarrow>
             (case Close ch w1 of
                (r, ch1, w2) \<Rightarrow>
                  Done ch = Some (nsigs w) \<and>
                  wait_sig (Done ch) w1 = BlocksUntilClosed \<and>
                  r = Inr None \<and>
                  Done ch1 = None \<and>
                  wait_sig (Done ch1) w2 = BlocksForever \<and>
                  wait_sig (Done ch) w2 = Ready \<and>
                  (\<forall>n. Done (fst (snd (Close_times n ch1 w2))) = None) \<and>
                  (\<forall>ws url opts.
                     ws url (client_n opts) (header_n opts) = Connected cn \<longrightarrow>
                     DialContext ws url opts w = ((Some ch, None), w1)))"
  using world_ok_fresh [OF assms]
  by (simp add: New_eq Close_after_New [OF assms] Close_times_nil_done Done_def wait_sig_def
      DialContext_def)

theorem Done_nil_after_Close_witness:
  "world_ok world0 \<and>
   Done (fst (New 5 world0)) = Some 0 \<and>
   Done (fst (snd (Close (fst (New 5 world0)) (snd (New 5 world0))))) = None \<and>
   wait_sig None (snd (snd (Close (fst (New 5 world0)) (snd (New 5 world0))))) = BlocksForever \<and>
   wait_sig (Some 0) (snd (snd (Close (fst (New 5 world0)) (snd (New 5 world0))))) = Ready \<and>
   DialContext (\<lambda>url cl hdr. Connected 5) ''ws://localhost/'' None world0 =
     ((Some (fst (New 5 world0)), None), snd (New 5 world0))"
proof -
  have "(\<lambda>url (cl :: nat option) (hdr :: header). Connected 5) ''ws://localhost/''
          (client_n None) (header_n None) = Connected 5"
    by simp
  then show ?thesis
    using Done_nil_after_Close [OF world_ok_world0, of 5] world_ok_world0
    by (auto simp: world0_def split: prod.splits)
qed

section \<open>Classifying transport errors\<close>

text \<open>
  \<open>Send\<close> and \<open>Recv\<close> hand every transport error to \<open>filterErr\<close>, in both revisions.
\<close>

lemma Send_filters:
  "fst (Send_g T ch d w) = filterErr_g (write_result T (events w) (ch_c ch) BinaryMessage d) \<and>
   fst (Send T ch d w) = filterErr (write_result T (events w) (ch_c ch) BinaryMessage d)"
  by (simp add: Send_def Send_g_def conn_write_def)

lemma Recv_filters:
  "read_result T (events w) (ch_c ch) = Inl e \<Longrightarrow>
     fst (Recv_g T ch w) = (None, filterErr_g (Some e)) \<and>
     fst (Recv T ch w) = (None, filterErr (Some e))"
  by (simp add: Recv_def Recv_g_def conn_read_def)

text \<open>
  The gorilla revision does what the claim says: an error of type
  \<open>*websocket.CloseError\<close> becomes \<open>net.ErrClosed\<close>, every other error is returned as it
  is.
\<close>

lemma filterErr_g_CloseError: "filterErr_g (Some (CloseErrorPtr x)) = Some ErrClosed"
  by simp

lemma filterErr_g_other: "(\<And>x. e \<noteq> CloseErrorPtr x) \<Longrightarrow> filterErr_g (Some e) = Some e"
  by (cases e) auto

text \<open>
  The nhooyr revision compares with the nil pointer \<open>(*websocket.CloseError)(nil)\<close>: only
  a chain of errors that holds this very nil pointer is mapped.  A close error with a
  status and a reason, by value or by pointer, wrapped or not, is not.
\<close>

lemma filterErr_maps_iff:
  "filterErr (Some e) = Some ErrClosed \<longleftrightarrow> errors_Is e (CloseErrorPtr None) \<or> e = ErrClosed"
  by (auto simp: filterErr_def)

lemma errors_Is_nil_pointer:
  "\<not> errors_Is (CloseErrorVal code reason) (CloseErrorPtr None) \<and>
   \<not> errors_Is (CloseErrorPtr (Some x)) (CloseErrorPtr None) \<and>
   errors_Is (WrapError p e) (CloseErrorPtr None) = errors_Is e (CloseErrorPtr None)"
  by simp

text \<open>
  C3, at the input where the nhooyr revision fails it.  The peer has sent a close frame;
  the transport reports it as \<open>close_frame_error\<close> from \<open>Read\<close> and from \<open>Write\<close>.  \<open>Recv\<close>
  and \<open>Send\<close> return this error unchanged, and it is not \<open>net.ErrClosed\<close>.
\<close>

theorem Recv_returns_close_frame_error_unmapped:
  "fst (Recv conn_peer_closed \<lparr>ch_c = 1, ch_done = Some 0\<rparr>
          \<lparr>nsigs = 1, fired = {}, events = []\<rparr>) = (None, Some close_frame_error) \<and>
   fst (Send conn_peer_closed \<lparr>ch_c = 1, ch_done = Some 0\<rparr> ''ping''
          \<lparr>nsigs = 1, fired = {}, events = []\<rparr>) = Some close_frame_error \<and>
   close_frame_error \<noteq> ErrClosed"
  by (simp add: Recv_def Send_def conn_peer_closed_def conn_read_def conn_write_def
      filterErr_def close_frame_error_def)

section \<open>Errors of Dial\<close>

text \<open>
  C9, as the code has it.  With \<open>D\<close> the dialer in use: a bad handshake whose response
  body is read without error and is not empty gives the error \<open>dial: \<close> followed by the
  body with the white space around it trimmed.  A failure that is not a bad handshake is
  wrapped as \<open>dial: %w\<close>, so \<open>errors.Unwrap\<close> gives the dial error back.  A bad handshake
  whose body is empty or cannot be read is returned as \<open>ErrBadHandshake\<close> itself, not
  wrapped.  Only the error of an unreachable endpoint unwraps, so the two kinds of
  failure can be told apart.
\<close>

theorem Dial_errors:
  "(dialer_g DefaultDialer opts url (header_g opts) = Failed (Some r) ErrBadHandshake \<and>
      Body r = (msg, None) \<and> msg \<noteq> [] \<longrightarrow>
      Dial TrimSpace DefaultDialer url opts =
        Inr (None, Some (ErrorString (''dial: '' @ TrimSpace msg))) \<and>
      errors_Unwrap (ErrorString (''dial: '' @ TrimSpace msg)) = None) \<and>
   (dialer_g DefaultDialer opts url (header_g opts) = Failed rsp err \<and> err \<noteq> ErrBadHandshake \<longrightarrow>
      Dial TrimSpace DefaultDialer url opts = Inr (None, Some (WrapError ''dial: '' err)) \<and>
      errors_Unwrap (WrapError ''dial: '' err) = Some err) \<and>
   (dialer_g DefaultDialer opts url (header_g opts) = Failed (Some r) ErrBadHandshake \<and>
      Body r = (msg, rerr) \<and> (rerr \<noteq> None \<or> msg = []) \<longrightarrow>
      Dial TrimSpace DefaultDialer url opts = Inr (None, Some ErrBadHandshake) \<and>
      errors_Unwrap ErrBadHandshake = None)"
  by (auto simp: Dial_def)

theorem Dial_errors_witness:
  "Dial (\<lambda>s. s) (dialer_refused ''failed'') ''ws://localhost/'' None =
     Inr (None, Some (ErrorString ''dial: failed'')) \<and>
   Dial (\<lambda>s. s) (\<lambda>url hdr. Failed None (ErrorString ''connection refused''))
       ''ws://localhost/'' None =
     Inr (None, Some (WrapError ''dial: '' (ErrorString ''connection refused''))) \<and>
   Dial (\<lambda>s. s) (dialer_refused []) ''ws://localhost/'' None = Inr (None, Some ErrBadHandshake)"
proof -
  let ?r = "\<lambda>b. \<lparr>StatusCode = 403, Body = (b, None)\<rparr>"
  have a: "dialer_g (dialer_refused ''failed'') None ''ws://localhost/'' (header_g None) =
             Failed (Some (?r ''failed'')) ErrBadHandshake \<and>
           Body (?r ''failed'') = (''failed'', None) \<and> ''failed'' \<noteq> []"
    by (simp add: dialer_g_def dialer_refused_def)
  have b: "dialer_g (\<lambda>url hdr. Failed None (ErrorString ''connection refused'')) None
             ''ws://localhost/'' (header_g None) =
             Failed None (ErrorString ''connection refused'') \<and>
           ErrorString ''connection refused'' \<noteq> ErrBadHandshake"
    by (simp add: dialer_g_def)
  have c: "dialer_g (dialer_refused []) None ''ws://localhost/'' (header_g None) =
             Failed (Some (?r [])) ErrBadHandshake \<and>
           Body (?r []) = ([], None) \<and> (None \<noteq> (None :: go_error option) \<or> ([] :: bytes) = [])"
    by (simp add: dialer_g_def dialer_refused_def)
  from a Dial_errors [where TrimSpace = "\<lambda>s. s" and DefaultDialer = "dialer_refused ''failed''"
      and opts = None and url = "''ws://localhost/''" and r = "?r ''failed''" and msg = "''failed''"]
  have 1: "Dial (\<lambda>s. s) (dialer_refused ''failed'') ''ws://localhost/'' None =
     Inr (None, Some (ErrorString (''dial: '' @ ''failed'')))"
    by blast
  from b Dial_errors [where TrimSpace = "\<lambda>s. s"
      and DefaultDialer = "\<lambda>url hdr. Failed None (ErrorString ''connection refused'')"
      and opts = None and url = "''ws://localhost/''" and rsp = None
      and err = "ErrorString ''connection refused''"]
  have 2: "Dial (\<lambda>s. s) (\<lambda>url hdr. Failed None (ErrorString ''connection refused''))
       ''ws://localhost/'' None =
     Inr (None, Some (WrapError ''dial: '' (ErrorString ''connection refused'')))"
    by blast
  from c Dial_errors [where TrimSpace = "\<lambda>s. s" and DefaultDialer = "dialer_refused []"
      and opts = None and url = "''ws://localhost/''" and r = "?r []" and msg = "[]"
      and rerr = None]
  have 3: "Dial (\<lambda>s. s) (dialer_refused []) ''ws://localhost/'' None =
     Inr (None, Some ErrBadHandshake)"
    by blast
  from 1 2 3 show ?thesis by simp
qed

text \<open>
  The claim as stated fails for a handshake refused with an empty body: \<open>Dial\<close> returns
  the bare \<open>ErrBadHandshake\<close>, which carries no \<open>dial: \<close> context and wraps nothing.
\<close>

theorem Dial_bad_handshake_empty_body_not_wrapped:
  "Dial (\<lambda>s. s) (dialer_refused []) ''ws://localhost/'' None = Inr (None, Some ErrBadHandshake) \<and>
   \<not> dial_context ErrBadHandshake \<and>
   errors_Unwrap ErrBadHandshake = None"
  by (simp add: Dial_def dialer_g_def header_g_def dial_context_def dialer_refused_def)

section \<open>The states a listener goes through\<close>

text \<open>
  A new listener satisfies \<open>queue_ok\<close> and \<open>pending_ok\<close>, and the handler and \<open>Accept\<close>
  keep both: the hypotheses of the theorems below hold in every state the listener
  reaches from \<open>NewListener\<close> by these steps.
\<close>

lemma queue_ok_NewListener: "queue_ok (NewListener zero opts)"
  by (simp add: queue_ok_def NewListener_def make_chan_def)

lemma pending_ok_NewListener: "pending_ok (NewListener zero opts) w"
  by (simp add: pending_ok_def NewListener_def make_chan_def)

lemma queue_ok_ServeHTTP: "queue_ok lst \<Longrightarrow> queue_ok (fst (snd (ServeHTTP lst req w)))"
  by (auto simp: queue_ok_def ServeHTTP_def Upgrade_def New_eq chan_send_def Let_def
      split: prod.splits option.splits sum.splits if_splits)

lemma world_ok_ServeHTTP: "world_ok w \<Longrightarrow> world_ok (snd (snd (ServeHTTP lst req w)))"
  by (auto simp: world_ok_def ServeHTTP_def Upgrade_def New_eq chan_send_def Let_def
      split: prod.splits option.splits sum.splits if_splits)

lemma pending_ok_ServeHTTP:
  "world_ok w \<Longrightarrow> pending_ok lst w \<Longrightarrow>
     pending_ok (fst (snd (ServeHTTP lst req w))) (snd (snd (ServeHTTP lst req w)))"
  by (auto simp: world_ok_def pending_ok_def open_done_def list_all_iff ServeHTTP_def Upgrade_def
        New_eq chan_send_def Let_def
      split: prod.splits option.splits sum.splits if_splits)

lemma queue_ok_Accept: "queue_ok lst \<Longrightarrow> queue_ok (snd (Accept pick ctx lst))"
  by (auto simp: queue_ok_def Accept_def recv_case_def chan_recv_def
      split: option.splits list.splits)

lemma pending_ok_Accept: "pending_ok lst w \<Longrightarrow> pending_ok (snd (Accept pick ctx lst)) w"
  by (auto simp: pending_ok_def Accept_def recv_case_def chan_recv_def
      split: option.splits list.splits)

text \<open>
  Closing a channel that \<open>Accept\<close> has handed out does not touch the queued ones: its
  signal is not one of theirs.
\<close>

lemma pending_ok_Close:
  assumes p: "pending_ok lst w"
    and n: "ch_done ch \<notin> set (map ch_done (q_buf (lst_inc lst)))"
  shows "pending_ok lst (snd (snd (Close ch w)))"
proof (cases "ch_done ch")
  case None
  then show ?thesis using p by (simp add: Close_def)
next
  case (Some d)
  have "open_done (snd (snd (Close ch w))) x" if x: "x \<in> set (q_buf (lst_inc lst))" for x
  proof -
    have o: "open_done w x" using p x by (simp add: pending_ok_def list_all_iff)
    have "ch_done x \<noteq> Some d" using n x Some by force
    with o Some show ?thesis
      by (auto simp: open_done_def Close_def close_sig_def split: option.splits)
  qed
  with p show ?thesis by (simp add: pending_ok_def list_all_iff)
qed

lemma ServeHTTP_no_panic:
  "queue_ok lst \<Longrightarrow>
     fst (ServeHTTP lst req w) \<noteq> ServePanic p \<and> fst (ServeHTTP lst req w) \<noteq> WaitNil"
  by (auto simp: queue_ok_def ServeHTTP_def Upgrade_def New_eq chan_send_def Let_def
      split: prod.splits option.splits sum.splits if_splits)

lemma listener_one_eq:
  "listener_one =
     \<lparr>lst_u = upgrade_any, lst_hdr = [], lst_check = (\<lambda>req. (0, None)),
      lst_inc = \<lparr>q_buf = [\<lparr>ch_c = 1, ch_done = Some 0\<rparr>], q_cap = 1, q_closed = False\<rparr>,
      lst_closed = False\<rparr> \<and>
   world_one = \<lparr>nsigs = 1, fired = {}, events = [EvCheck, EvUpgrade]\<rparr>"
  by (simp add: listener_one_def world_one_def ServeHTTP_def NewListener_def check_def
      Upgrade_def upgrade_any_def upgrader_l_def header_l_def maxPending_def make_chan_def
      chan_send_def New_eq world0_def)


section \<open>Admission\<close>

text \<open>
  C4.  The handler never stays at the send on the queue: it sends only after it has
  seen, under the mutex, that the listener is open and the queue is not full.  When the
  hook lets the request pass and the listener is closed, the response is status 500 with
  \<open>listener is closed\<close>; when the listener is open and the queue holds as many channels
  as its capacity, the response is status 503 with \<open>connection queue is full\<close>.  In both
  cases the handler returns at once, the listener is as it was, and nothing but the hook
  call and the response is added to the log: no upgrade, no channel.  The capacity of a
  new listener is \<open>MaxPending\<close> when that is positive, and 1 otherwise.
\<close>

theorem ServeHTTP_rejects_without_blocking:
  assumes "queue_ok lst"
  shows "fst (ServeHTTP lst req w) \<noteq> BlockedOnSend \<and>
         (snd (lst_check lst req) = None \<and> lst_closed lst \<longrightarrow>
            ServeHTTP lst req w =
              (Returned, lst,
               w\<lparr>events := events w @
                    [EvCheck,
                     EvHttpError (Lit ''listener is closed'') StatusInternalServerError]\<rparr>)) \<and>
         (snd (lst_check lst req) = None \<and> \<not> lst_closed lst \<and>
          length (q_buf (lst_inc lst)) = q_cap (lst_inc lst) \<longrightarrow>
            ServeHTTP lst req w =
              (Returned, lst,
               w\<lparr>events := events w @
                    [EvCheck,
                     EvHttpError (Lit ''connection queue is full'') StatusServiceUnavailable]\<rparr>)) \<and>
         q_cap (lst_inc (NewListener zero opts)) =
           (case opts of
              None \<Rightarrow> 1
            | Some x \<Rightarrow> if 0 < MaxPending x then nat (MaxPending x) else 1)"
  using assms
  by (auto simp: queue_ok_def ServeHTTP_def Upgrade_def New_eq chan_send_def Let_def
        NewListener_def make_chan_def maxPending_def
      split: prod.splits option.splits sum.splits if_splits)

theorem ServeHTTP_rejects_without_blocking_witness:
  "queue_ok listener_one \<and>
   length (q_buf (lst_inc listener_one)) = q_cap (lst_inc listener_one) \<and>
   ServeHTTP listener_one [] world_one =
     (Returned, listener_one,
      \<lparr>nsigs = 1, fired = {},
         events = [EvCheck, EvUpgrade, EvCheck,
                   EvHttpError (Lit ''connection queue is full'') 503]\<rparr>) \<and>
   q_cap (lst_inc (NewListener upgrade_any (Some options_two))) = 2"
proof -
  have q: "queue_ok listener_one"
    unfolding listener_one_def by (intro queue_ok_ServeHTTP queue_ok_NewListener)
  have h: "snd (lst_check listener_one []) = None \<and> \<not> lst_closed listener_one \<and>
           length (q_buf (lst_inc listener_one)) = q_cap (lst_inc listener_one)"
    by (simp add: listener_one_eq)
  from ServeHTTP_rejects_without_blocking [OF q, where req = "[]" and w = world_one
      and zero = upgrade_any and opts = "Some options_two"] h
  have "ServeHTTP listener_one [] world_one =
          (Returned, listener_one,
           world_one\<lparr>events := events world_one @
              [EvCheck, EvHttpError (Lit ''connection queue is full'') StatusServiceUnavailable]\<rparr>) \<and>
        q_cap (lst_inc (NewListener upgrade_any (Some options_two))) =
          (if 0 < MaxPending options_two then nat (MaxPending options_two) else 1)"
    by simp
  then show ?thesis
    using q h by (simp add: listener_one_eq StatusServiceUnavailable_def options_two_def)
qed



section \<open>Accept\<close>

text \<open>
  C6, as the code has it.  With the signal not fired, \<open>Accept\<close> returns the oldest queued
  channel when there is one, stays in the \<open>select\<close> when the queue is empty and open, and
  returns \<open>ErrListenerClosed\<close> when the queue is empty and closed.  With the signal fired
  and the queue empty and open it returns \<open>ctx.Err()\<close>, whatever the \<open>select\<close> picks.  With
  the signal fired it never stays in the \<open>select\<close>, and it returns either \<open>ctx.Err()\<close> or
  what it would return without the signal: when a channel (or the closing of the queue)
  and the signal are both there, the \<open>select\<close> picks, and the first case gives
  \<open>ctx.Err()\<close>.  The errors of a context are not \<open>ErrListenerClosed\<close>.
\<close>

theorem Accept_cases:
  "(q_buf (lst_inc lst) = sc # rest \<longrightarrow>
      Accept pick None lst =
        (AcceptReturns (Some sc) None, lst\<lparr>lst_inc := (lst_inc lst)\<lparr>q_buf := rest\<rparr>\<rparr>)) \<and>
   (q_buf (lst_inc lst) = [] \<and> \<not> q_closed (lst_inc lst) \<longrightarrow>
      Accept pick (Some e) lst = (AcceptReturns None (Some e), lst) \<and>
      Accept pick None lst = (AcceptBlocks, lst)) \<and>
   (q_buf (lst_inc lst) = [] \<and> q_closed (lst_inc lst) \<longrightarrow>
      Accept pick None lst = (AcceptReturns None (Some ErrListenerClosed), lst)) \<and>
   (Accept pick (Some e) lst = (AcceptReturns None (Some e), lst) \<or>
    Accept pick (Some e) lst = Accept pick None lst) \<and>
   Accept True (Some e) lst = (AcceptReturns None (Some e), lst) \<and>
   fst (Accept pick (Some e) lst) \<noteq> AcceptBlocks \<and>
   Canceled \<noteq> ErrListenerClosed \<and> DeadlineExceeded \<noteq> ErrListenerClosed"
  by (auto simp: Accept_def recv_case_def chan_recv_def Let_def split: list.splits)

theorem Accept_cases_witness:
  "Accept False None listener_one =
     (AcceptReturns (Some \<lparr>ch_c = 1, ch_done = Some 0\<rparr>) None,
      listener_one\<lparr>lst_inc := (lst_inc listener_one)\<lparr>q_buf := []\<rparr>\<rparr>) \<and>
   Accept False (Some DeadlineExceeded) (NewListener upgrade_any None) =
     (AcceptReturns None (Some DeadlineExceeded), NewListener upgrade_any None) \<and>
   Accept False None
       ((NewListener upgrade_any None)
          \<lparr>lst_inc := \<lparr>q_buf = [], q_cap = 1, q_closed = True\<rparr>, lst_closed := True\<rparr>) =
     (AcceptReturns None (Some ErrListenerClosed),
      (NewListener upgrade_any None)
          \<lparr>lst_inc := \<lparr>q_buf = [], q_cap = 1, q_closed = True\<rparr>, lst_closed := True\<rparr>)"
proof -
  let ?new = "NewListener upgrade_any None"
  let ?closed = "?new\<lparr>lst_inc := \<lparr>q_buf = [], q_cap = 1, q_closed = True\<rparr>, lst_closed := True\<rparr>"
  have a: "q_buf (lst_inc listener_one) = \<lparr>ch_c = 1, ch_done = Some 0\<rparr> # []"
    by (simp add: listener_one_eq)
  have b: "q_buf (lst_inc ?new) = [] \<and> \<not> q_closed (lst_inc ?new)"
    by (simp add: NewListener_def make_chan_def)
  have c: "q_buf (lst_inc ?closed) = [] \<and> q_closed (lst_inc ?closed)"
    by simp
  from a Accept_cases [where lst = listener_one and sc = "\<lparr>ch_c = 1, ch_done = Some 0\<rparr>"
      and rest = "[]" and pick = False]
  have 1: "Accept False None listener_one =
     (AcceptReturns (Some \<lparr>ch_c = 1, ch_done = Some 0\<rparr>) None,
      listener_one\<lparr>lst_inc := (lst_inc listener_one)\<lparr>q_buf := []\<rparr>\<rparr>)"
    by blast
  from b Accept_cases [where lst = ?new and pick = False and e = DeadlineExceeded]
  have 2: "Accept False (Some DeadlineExceeded) ?new =
             (AcceptReturns None (Some DeadlineExceeded), ?new)"
    by blast
  from c Accept_cases [where lst = ?closed and pick = False]
  have 3: "Accept False None ?closed = (AcceptReturns None (Some ErrListenerClosed), ?closed)"
    by blast
  from 1 2 3 show ?thesis by simp
qed

text \<open>
  The claim as stated fails when a channel is queued and the signal has fired already:
  the \<open>select\<close> may take the first case, and \<open>Accept\<close> then returns the cancellation
  error, leaving the channel in the queue.
\<close>

theorem Accept_may_return_cancellation_with_channel_queued:
  "q_buf (lst_inc listener_one) = [\<lparr>ch_c = 1, ch_done = Some 0\<rparr>] \<and>
   Accept True (Some Canceled) listener_one = (AcceptReturns None (Some Canceled), listener_one)"
  by (simp add: listener_one_eq Accept_def chan_recv_def)

section \<open>Closing the listener\<close>



text \<open>
  The loop over the closed queue closes every queued channel, in the order of the queue,
  and leaves \<open>cerr\<close> as it was: \<open>Close\<close> of this revision returns nil.
\<close>

lemma drain_pending:
  "list_all (open_done w) chs \<Longrightarrow> distinct (map ch_done chs) \<Longrightarrow>
     drain chs cerr w =
       (Inr cerr, [],
        w\<lparr>fired := fired w \<union> set (List.map_filter ch_done chs),
          events := events w @ closing_events chs\<rparr>)"
proof (induction chs arbitrary: w cerr)
  case Nil
  then show ?case by simp
next
  case (Cons ch rest)
  from Cons.prems obtain d where d: "ch_done ch = Some d" and nf: "d \<notin> fired w"
    by (auto simp: open_done_def split: option.splits)
  let ?w1 = "w\<lparr>fired := insert d (fired w),
          events := events w @ [EvCloseSig d, EvGoClose (ch_c ch) StatusNormalClosure ''bye'']\<rparr>"
  have c: "Close ch w = (Inr None, ch\<lparr>ch_done := None\<rparr>, ?w1)"
    using Close_open_done [OF d nf] .
  have notin: "Some d \<notin> ch_done ` set rest" using Cons.prems(2) d by auto
  have rest: "list_all (open_done ?w1) rest"
    unfolding list_all_iff
  proof
    fix x assume x: "x \<in> set rest"
    then have o: "open_done w x" using Cons.prems(1) by (simp add: list_all_iff)
    have "ch_done x \<noteq> Some d" using x notin by force
    with o show "open_done ?w1 x" by (auto simp: open_done_def split: option.splits)
  qed
  have dist: "distinct (map ch_done rest)" using Cons.prems(2) by simp
  have "drain (ch # rest) cerr w = drain rest cerr ?w1" using c by simp
  also have "\<dots> = (Inr cerr, [],
        ?w1\<lparr>fired := fired ?w1 \<union> set (List.map_filter ch_done rest),
          events := events ?w1 @ closing_events rest\<rparr>)"
    using Cons.IH [OF rest dist] .
  also have "\<dots> = (Inr cerr, [],
        w\<lparr>fired := fired w \<union> set (List.map_filter ch_done (ch # rest)),
          events := events w @ closing_events (ch # rest)\<rparr>)"
    using d by auto
  finally show ?case .
qed



text \<open>The closed listener is again in a state the theorems speak about.\<close>

lemma queue_ok_Listener_Close:
  "queue_ok lst \<Longrightarrow> pending_ok lst w \<Longrightarrow>
     queue_ok (fst (snd (Listener_Close lst w))) \<and>
     pending_ok (fst (snd (Listener_Close lst w))) (snd (snd (Listener_Close lst w)))"
  using drain_pending [of w "q_buf (lst_inc lst)" None]
  by (auto simp: Listener_Close_def queue_ok_def pending_ok_def)

end
